theory Spec2Isabelle
  imports Main
begin

section \<open>Host values and errors\<close>

text \<open>
  The module \<^verbatim>\<open>trod/types/_impl.py\<close> works on dynamically typed host values.  The
  values that reach the code under study are collected in one datatype; every
  \<^verbatim>\<open>raise\<close> of the source is a value of \<open>error\<close> on the left of a sum.
\<close>

datatype error =
    TypeError
  | ValueError
  | ProgrammingError string
  | NoPKError
  | NoColumnNameError
  | InvalidOperation
  | AttributeError
  | OtherError

datatype pyval =
    PNone
  | PBool bool
  | PInt int
  | PFloat int int
  | PStr string
  | PBytes "nat list"
  | PDecimal bool nat int
  | PUUID string
  | PDate int
  | PTime int
  | PDateTime int int
  | PTimedelta int
  | PSQL string
  | PCallable nat
  | PCallableColumn nat

text \<open>
  \<open>PFloat m e\<close> is the binary float \<open>m * 2 ^ e\<close>; \<open>PDecimal s c e\<close> is the
  \<^verbatim>\<open>decimal.Decimal\<close> with sign \<open>s\<close>, coefficient \<open>c\<close> and exponent \<open>e\<close>
  (\<^verbatim>\<open>as_tuple()\<close>); \<open>PUUID h\<close> is a \<^verbatim>\<open>uuid.UUID\<close> with \<^verbatim>\<open>.hex == h\<close>;
  \<open>PDateTime d t\<close> is a \<^verbatim>\<open>datetime.datetime\<close> (day ordinal, microsecond of the
  day); \<open>PSQL s\<close> is the raw SQL node \<^verbatim>\<open>SQL(s)\<close>; \<open>PCallable k\<close> is a
  callable object; \<open>PCallableColumn k\<close> is a column object that is callable, such as
  a \<^verbatim>\<open>Date\<close>, \<^verbatim>\<open>Time\<close> or \<^verbatim>\<open>DateTime\<close> field used as a default, whose
  \<^verbatim>\<open>__eq__\<close> builds an expression.
\<close>

text \<open>Python truth value testing (\<^verbatim>\<open>if value:\<close>, \<^verbatim>\<open>not value\<close>, \<^verbatim>\<open>a or b\<close>).\<close>

fun truthy :: "pyval \<Rightarrow> bool" where
  "truthy PNone = False"
| "truthy (PBool b) = b"
| "truthy (PInt i) = (i \<noteq> 0)"
| "truthy (PFloat m e) = (m \<noteq> 0)"
| "truthy (PStr s) = (s \<noteq> [])"
| "truthy (PBytes bs) = (bs \<noteq> [])"
| "truthy (PDecimal s c e) = (c \<noteq> 0)"
| "truthy (PUUID h) = True"
| "truthy (PDate d) = True"
| "truthy (PTime t) = True"
| "truthy (PDateTime d t) = True"
| "truthy (PTimedelta t) = (t \<noteq> 0)"
| "truthy (PSQL s) = True"
| "truthy (PCallable k) = True"
| "truthy (PCallableColumn k) = True"

text \<open>The host types named by the \<^verbatim>\<open>py_type\<close> class attributes.\<close>

datatype pytype = T_int | T_bool | T_float | T_str | T_Decimal | T_UUID
  | T_datetime | T_date | T_time

text \<open>\<^verbatim>\<open>isinstance(v, t)\<close>: \<^verbatim>\<open>bool\<close> is a subclass of \<^verbatim>\<open>int\<close> and
  \<^verbatim>\<open>datetime\<close> a subclass of \<^verbatim>\<open>date\<close>.\<close>

definition isinstance :: "pyval \<Rightarrow> pytype \<Rightarrow> bool" where
  "isinstance v t =
     (case v of
        PBool b \<Rightarrow> t = T_bool \<or> t = T_int
      | PInt i \<Rightarrow> t = T_int
      | PFloat m e \<Rightarrow> t = T_float
      | PStr s \<Rightarrow> t = T_str
      | PDecimal s c e \<Rightarrow> t = T_Decimal
      | PUUID h \<Rightarrow> t = T_UUID
      | PDateTime d u \<Rightarrow> t = T_datetime \<or> t = T_date
      | PDate d \<Rightarrow> t = T_date
      | PTime u \<Rightarrow> t = T_time
      | _ \<Rightarrow> False)"

definition is_SQL :: "pyval \<Rightarrow> bool" where
  "is_SQL v = (case v of PSQL s \<Rightarrow> True | _ \<Rightarrow> False)"

definition callable :: "pyval \<Rightarrow> bool" where
  "callable v = (case v of PCallable k \<Rightarrow> True | PCallableColumn k \<Rightarrow> True | _ \<Rightarrow> False)"

section \<open>Collaborators outside the module\<close>

text \<open>
  The module imports \<^verbatim>\<open>adapter\<close>, \<^verbatim>\<open>validator\<close> and the \<^verbatim>\<open>Context\<close> of
  \<^verbatim>\<open>_helper\<close>, and it calls the host language's constructors and formatters.  What
  these compute is not fixed by the module; the functions below take them as one
  parameter \<open>X\<close>, so every theorem holds for whatever they compute.
\<close>

record externals =
  x_str :: "pyval \<Rightarrow> string"
  x_construct :: "pytype \<Rightarrow> pyval \<Rightarrow> error + pyval"
  x_decimal :: "string \<Rightarrow> error + pyval"
  x_pow10 :: "int \<Rightarrow> error + int"
  x_quantize :: "pyval \<Rightarrow> int \<Rightarrow> string \<Rightarrow> error + pyval"
  x_int16 :: "string \<Rightarrow> string option"
  x_round :: "pyval \<Rightarrow> error + int"
  x_fromtimestamp :: "bool \<Rightarrow> pyval \<Rightarrow> error + pyval"
  x_iptoint :: "string \<Rightarrow> error + pyval"
  x_iptostr :: "pyval \<Rightarrow> error + pyval"
  x_simple_datetime :: "pyval \<Rightarrow> error + pyval"
  x_format_datetime :: "string \<Rightarrow> string list \<Rightarrow> (pyval \<Rightarrow> pyval) option \<Rightarrow> error + pyval"
  x_dt_strftime :: "pyval \<Rightarrow> string list \<Rightarrow> error + string"
  x_is_email :: "string \<Rightarrow> bool"
  x_is_url :: "string \<Rightarrow> bool"
  x_table_alias :: "(string \<Rightarrow> string option) \<Rightarrow> string \<Rightarrow> string \<times> (string \<times> string) list"
  x_inline :: "pyval \<Rightarrow> string"

text \<open>
  A collaborator that rejects every input.  It stands for \<open>X\<close> where a fact is stated
  at concrete inputs whose evaluation calls no collaborator.
\<close>

definition no_externals :: externals where
  "no_externals =
     \<lparr> x_str = (\<lambda>v. []),
       x_construct = (\<lambda>t v. Inl OtherError),
       x_decimal = (\<lambda>s. Inl InvalidOperation),
       x_pow10 = (\<lambda>k. Inl InvalidOperation),
       x_quantize = (\<lambda>d te m. Inl InvalidOperation),
       x_int16 = (\<lambda>s. None),
       x_round = (\<lambda>v. Inl TypeError),
       x_fromtimestamp = (\<lambda>u v. Inl OtherError),
       x_iptoint = (\<lambda>s. Inl ValueError),
       x_iptostr = (\<lambda>v. Inl ValueError),
       x_simple_datetime = (\<lambda>v. Inl ValueError),
       x_format_datetime = (\<lambda>s fs g. Inl ValueError),
       x_dt_strftime = (\<lambda>v fs. Inl ValueError),
       x_is_email = (\<lambda>s. False),
       x_is_url = (\<lambda>s. False),
       x_table_alias = (\<lambda>m n. (n, [])),
       x_inline = (\<lambda>v. []) \<rparr>"

text \<open>\<^verbatim>\<open>str(value)\<close>: a string is returned as it is.\<close>

definition py_str :: "externals \<Rightarrow> pyval \<Rightarrow> string" where
  "py_str X v = (case v of PStr s \<Rightarrow> s | _ \<Rightarrow> x_str X v)"

section \<open>The host library: decimals and UUIDs\<close>

text \<open>
  \<^verbatim>\<open>decimal.Decimal(s)\<close> for a plain literal (optional sign, digits, optional fraction):
  the coefficient is the digits read as a number and the exponent is minus the number
  of fraction digits.  Every other spelling (exponent notation, blanks, infinities) is
  left to \<open>x_decimal\<close>.
\<close>

definition is_digit :: "char \<Rightarrow> bool" where
  "is_digit c = (c \<in> set ''0123456789'')"

definition digit_val :: "char \<Rightarrow> nat" where
  "digit_val c = of_char c - 48"

definition nat_of_digits :: "string \<Rightarrow> nat" where
  "nat_of_digits ds = foldl (\<lambda>a c. 10 * a + digit_val c) 0 ds"

definition plain_decimal :: "string \<Rightarrow> (bool \<times> nat \<times> int) option" where
  "plain_decimal s =
     (let neg = (case s of c # r \<Rightarrow> c = CHR ''-'' | [] \<Rightarrow> False);
          body = (case s of c # r \<Rightarrow> if c = CHR ''-'' \<or> c = CHR ''+'' then r else s | [] \<Rightarrow> []);
          ip = takeWhile (\<lambda>c. c \<noteq> CHR ''.'') body;
          fp = drop 1 (dropWhile (\<lambda>c. c \<noteq> CHR ''.'') body)
      in if list_all is_digit (ip @ fp) \<and> ip @ fp \<noteq> []
         then Some (neg, nat_of_digits (ip @ fp), - int (length fp)) else None)"

definition Decimal_of_str :: "externals \<Rightarrow> string \<Rightarrow> error + pyval" where
  "Decimal_of_str X s =
     (case plain_decimal s of
        Some (sg, c, e) \<Rightarrow> Inr (PDecimal sg c e)
      | None \<Rightarrow> x_decimal X s)"

text \<open>The number of decimal digits of a coefficient (\<^verbatim>\<open>len(self._int)\<close>).\<close>

fun ndigits :: "nat \<Rightarrow> nat" where
  "ndigits n = (if n < 10 then 1 else Suc (ndigits (n div 10)))"

declare ndigits.simps [simp del]

text \<open>
  The rounding functions of \<^verbatim>\<open>decimal\<close>: for a coefficient cut into quotient \<open>q\<close> and
  remainder \<open>r\<close> by the divisor \<open>m\<close>, whether the quotient is incremented.  An unknown
  mode name has no rounding function.
\<close>

definition round_incr :: "string \<Rightarrow> bool \<Rightarrow> nat \<Rightarrow> nat \<Rightarrow> nat \<Rightarrow> bool option" where
  "round_incr mode neg q r m =
     (if mode = ''ROUND_DOWN'' then Some False
      else if mode = ''ROUND_UP'' then Some (r \<noteq> 0)
      else if mode = ''ROUND_HALF_UP'' then Some (m \<le> 2 * r)
      else if mode = ''ROUND_HALF_DOWN'' then Some (m < 2 * r)
      else if mode = ''ROUND_HALF_EVEN'' then Some (m < 2 * r \<or> (m = 2 * r \<and> odd q))
      else if mode = ''ROUND_CEILING'' then Some ((\<not> neg) \<and> r \<noteq> 0)
      else if mode = ''ROUND_FLOOR'' then Some (neg \<and> r \<noteq> 0)
      else if mode = ''ROUND_05UP'' then Some (r \<noteq> 0 \<and> (q mod 10 = 0 \<or> q mod 10 = 5))
      else None)"

text \<open>
  \<^verbatim>\<open>Decimal.quantize(exp, rounding=mode)\<close> under the default context (precision 28,
  \<^verbatim>\<open>Emax = 999999\<close>, \<^verbatim>\<open>Etiny = -1000026\<close>), for the finite decimal \<open>(sg, c, e)\<close> and the
  target exponent \<open>te\<close>.
\<close>

definition quantize :: "bool \<Rightarrow> nat \<Rightarrow> int \<Rightarrow> int \<Rightarrow> string \<Rightarrow> error + pyval" where
  "quantize sg c e te mode =
     (if round_incr mode sg 0 0 1 = None then Inl TypeError
      else if te < - 1000026 \<or> 999999 < te then Inl InvalidOperation
      else if c = 0 then Inr (PDecimal sg 0 te)
      else if 999999 < e + int (ndigits c) - 1 then Inl InvalidOperation
      else if 28 < e + int (ndigits c) - te then Inl InvalidOperation
      else if te \<le> e then Inr (PDecimal sg (c * 10 ^ nat (e - te)) te)
      else
        (let m = 10 ^ nat (te - e); q = c div m; r = c mod m;
             q' = (if round_incr mode sg q r m = Some True then q + 1 else q)
         in if 28 < ndigits q' then Inl InvalidOperation else Inr (PDecimal sg q' te)))"

text \<open>
  The exponent of \<^verbatim>\<open>Decimal(10) ** (-k)\<close>: \<open>- k\<close> for a positive scale, \<open>0\<close> while
  the power is an integer of at most 28 digits; other scales are left to \<open>x_pow10\<close>.
\<close>

definition pow10_exponent :: "externals \<Rightarrow> int \<Rightarrow> error + int" where
  "pow10_exponent X k =
     (if 0 < k \<and> k \<le> 999999 then Inr (- k)
      else if - 27 \<le> k \<and> k \<le> 0 then Inr 0
      else x_pow10 X k)"

text \<open>
  \<^verbatim>\<open>uuid.UUID(hex)\<close>: the prefixes \<^verbatim>\<open>urn:\<close> and \<^verbatim>\<open>uuid:\<close>, surrounding braces and
  hyphens are removed, the rest must have 32 characters and be read by
  \<^verbatim>\<open>int(hex, 16)\<close>.  Thirty-two hexadecimal digits are read as they stand; what else
  \<^verbatim>\<open>int\<close> accepts is left to \<open>x_int16\<close>.  A value that is no string has no
  \<^verbatim>\<open>replace\<close> method taking strings and raises.  The result is the \<^verbatim>\<open>.hex\<close> of
  the UUID.
\<close>

function remove_all :: "string \<Rightarrow> string \<Rightarrow> string" where
  "remove_all pat s =
     (if s = [] \<or> pat = [] then s
      else if take (length pat) s = pat then remove_all pat (drop (length pat) s)
      else hd s # remove_all pat (tl s))"
  by pat_completeness auto
termination
  by (relation "measure (\<lambda>(pat, s). length s)") auto

declare remove_all.simps [simp del]

definition strip_chars :: "string \<Rightarrow> string \<Rightarrow> string" where
  "strip_chars cs s =
     rev (dropWhile (\<lambda>c. c \<in> set cs) (rev (dropWhile (\<lambda>c. c \<in> set cs) s)))"

definition is_hexdigit :: "char \<Rightarrow> bool" where
  "is_hexdigit c = (c \<in> set ''0123456789abcdefABCDEF'')"

definition lower_hex :: "char \<Rightarrow> char" where
  "lower_hex c =
     (if c = CHR ''A'' then CHR ''a'' else if c = CHR ''B'' then CHR ''b''
      else if c = CHR ''C'' then CHR ''c'' else if c = CHR ''D'' then CHR ''d''
      else if c = CHR ''E'' then CHR ''e'' else if c = CHR ''F'' then CHR ''f'' else c)"

definition UUID_of_str :: "externals \<Rightarrow> string \<Rightarrow> error + string" where
  "UUID_of_str X s =
     (let h = remove_all ''-'' (strip_chars ''{}''
                (remove_all ''uuid:'' (remove_all ''urn:'' s)))
      in if length h \<noteq> 32 then Inl ValueError
         else if list_all is_hexdigit h then Inr (map lower_hex h)
         else (case x_int16 X h of None \<Rightarrow> Inl ValueError | Some h' \<Rightarrow> Inr h'))"

definition UUID_construct :: "externals \<Rightarrow> pyval \<Rightarrow> error + string" where
  "UUID_construct X v =
     (case v of
        PStr s \<Rightarrow> UUID_of_str X s
      | PNone \<Rightarrow> Inl TypeError
      | PBytes bs \<Rightarrow> Inl TypeError
      | _ \<Rightarrow> Inl OtherError)"

text \<open>\<^verbatim>\<open>uuid.UUID(bytes=b).hex\<close> for sixteen bytes.\<close>

definition hex_char :: "nat \<Rightarrow> char" where
  "hex_char k = ''0123456789abcdef'' ! (k mod 16)"

definition hex_of_bytes :: "nat list \<Rightarrow> string" where
  "hex_of_bytes bs = concat (map (\<lambda>b. [hex_char (b div 16), hex_char b]) bs)"

text \<open>The constructor call \<^verbatim>\<open>self.py_type(value)\<close>.\<close>

definition py_construct :: "externals \<Rightarrow> pytype \<Rightarrow> pyval \<Rightarrow> error + pyval" where
  "py_construct X t v =
     (case t of
        T_bool \<Rightarrow> Inr (PBool (truthy v))
      | T_str \<Rightarrow> Inr (PStr (py_str X v))
      | T_UUID \<Rightarrow> (case UUID_construct X v of Inl e \<Rightarrow> Inl e | Inr h \<Rightarrow> Inr (PUUID h))
      | T_Decimal \<Rightarrow>
          (case v of
             PStr s \<Rightarrow> Decimal_of_str X s
           | PDecimal sg c e \<Rightarrow> Inr v
           | PInt i \<Rightarrow> Inr (PDecimal (i < 0) (nat \<bar>i\<bar>) 0)
           | _ \<Rightarrow> x_construct X t v)
      | _ \<Rightarrow> x_construct X t v)"

section \<open>Fields\<close>

text \<open>The field classes of the module; \<open>K_IP\<close> is the class \<^verbatim>\<open>IP(Bigint)\<close>.\<close>

datatype fkind =
    K_Tinyint | K_Smallint | K_Int | K_Bigint | K_Auto | K_BigAuto
  | K_Bool | K_Float | K_Double | K_Decimal
  | K_Text | K_Char | K_VarChar
  | K_UUID | K_IP | K_Email | K_URL
  | K_Date | K_Time | K_DateTime | K_Timestamp

datatype flength = LInt int | LPair int int

text \<open>
  The primary-key descriptor handed to \<^verbatim>\<open>Table\<close>: \<open>p_field\<close> refers to the primary
  key's field object (\<open>None\<close> when there is none), \<open>p_begin\<close> is the auto-increment
  start.
\<close>

record primary =
  p_field :: "nat option"
  p_begin :: "int option"

datatype ikind = Key | UKey

record index =
  i_kind :: ikind
  i_name :: string
  i_fields :: "string list"
  i_comment :: string

text \<open>
  A \<^verbatim>\<open>Table\<close> object.  \<open>t_fields_dict\<close> keeps the dictionary's insertion order and
  refers to the field objects by their addresses in the store.
\<close>

record table =
  t_db :: "string option"
  t_name :: string
  t_fields_dict :: "(string \<times> nat) list"
  t_primary :: primary
  t_indexes :: "index list option"
  t_auto_increment :: int
  t_engine :: string
  t_charset :: string
  t_comment :: string

text \<open>
  A field object.  An attribute that the object's class does not have, or a slot that
  was never assigned, is \<open>None\<close>: \<^verbatim>\<open>getattr(field, 'auto', None)\<close> reads \<open>f_auto\<close>,
  and \<open>f_default = None\<close> is the unassigned \<^verbatim>\<open>default\<close> slot of a \<^verbatim>\<open>Text\<close> field,
  while \<open>Some PNone\<close> is the default \<^verbatim>\<open>None\<close>.  Likewise \<open>f_null = None\<close> is the
  \<^verbatim>\<open>null\<close> slot before a constructor has assigned it.
\<close>

record field =
  f_kind :: fkind
  f_null :: "bool option"
  f_default :: "pyval option"
  f_comment :: string
  f_name :: "string option"
  f_table :: "table option"
  f_length :: "flength option"
  f_unsigned :: "bool option"
  f_zerofill :: "bool option"
  f_primary_key :: "bool option"
  f_auto :: "bool option"
  f_encoding :: "string option"
  f_auto_round :: bool
  f_rounding :: string
  f_formats :: "string list"
  f_utc :: bool

definition py_types :: "fkind \<Rightarrow> pytype list" where
  "py_types k =
     (case k of
        K_Bool \<Rightarrow> [T_bool]
      | K_Float \<Rightarrow> [T_float] | K_Double \<Rightarrow> [T_float]
      | K_Decimal \<Rightarrow> [T_Decimal]
      | K_Text \<Rightarrow> [T_str] | K_Char \<Rightarrow> [T_str] | K_VarChar \<Rightarrow> [T_str]
      | K_Email \<Rightarrow> [T_str] | K_URL \<Rightarrow> [T_str] | K_IP \<Rightarrow> [T_str]
      | K_UUID \<Rightarrow> [T_UUID]
      | K_Date \<Rightarrow> [T_datetime, T_date]
      | K_Time \<Rightarrow> [T_datetime, T_time]
      | K_DateTime \<Rightarrow> [T_datetime]
      | K_Timestamp \<Rightarrow> [T_datetime]
      | _ \<Rightarrow> [T_int])"

definition py_type_is_tuple :: "fkind \<Rightarrow> bool" where
  "py_type_is_tuple k = (k = K_Date \<or> k = K_Time)"

definition db_type :: "fkind \<Rightarrow> string" where
  "db_type k =
     (case k of
        K_Tinyint \<Rightarrow> ''tinyint'' | K_Smallint \<Rightarrow> ''smallint''
      | K_Int \<Rightarrow> ''int'' | K_Auto \<Rightarrow> ''int''
      | K_Bigint \<Rightarrow> ''bigint'' | K_BigAuto \<Rightarrow> ''bigint'' | K_IP \<Rightarrow> ''bigint''
      | K_Bool \<Rightarrow> ''bool'' | K_Float \<Rightarrow> ''float'' | K_Double \<Rightarrow> ''double''
      | K_Decimal \<Rightarrow> ''decimal'' | K_Text \<Rightarrow> ''text'' | K_Char \<Rightarrow> ''char''
      | K_VarChar \<Rightarrow> ''varchar'' | K_Email \<Rightarrow> ''varchar'' | K_URL \<Rightarrow> ''varchar''
      | K_UUID \<Rightarrow> ''varchar(40)''
      | K_Date \<Rightarrow> ''date'' | K_Time \<Rightarrow> ''time'' | K_DateTime \<Rightarrow> ''datetime''
      | K_Timestamp \<Rightarrow> ''timestamp'')"

definition class_name :: "fkind \<Rightarrow> string" where
  "class_name k =
     (case k of
        K_Tinyint \<Rightarrow> ''Tinyint'' | K_Smallint \<Rightarrow> ''Smallint''
      | K_Int \<Rightarrow> ''Int'' | K_Auto \<Rightarrow> ''Auto''
      | K_Bigint \<Rightarrow> ''Bigint'' | K_BigAuto \<Rightarrow> ''BigAuto'' | K_IP \<Rightarrow> ''IP''
      | K_Bool \<Rightarrow> ''Bool'' | K_Float \<Rightarrow> ''Float'' | K_Double \<Rightarrow> ''Double''
      | K_Decimal \<Rightarrow> ''Decimal'' | K_Text \<Rightarrow> ''Text'' | K_Char \<Rightarrow> ''Char''
      | K_VarChar \<Rightarrow> ''VarChar'' | K_Email \<Rightarrow> ''Email'' | K_URL \<Rightarrow> ''URL''
      | K_UUID \<Rightarrow> ''UUID''
      | K_Date \<Rightarrow> ''Date'' | K_Time \<Rightarrow> ''Time'' | K_DateTime \<Rightarrow> ''DateTime''
      | K_Timestamp \<Rightarrow> ''Timestamp'')"

subsection \<open>Value conversion\<close>

text \<open>\<^verbatim>\<open>FieldBase.adapt\<close>: the call \<^verbatim>\<open>self.py_type(value)\<close>; a tuple of types is not
  callable.\<close>

definition FieldBase_adapt :: "externals \<Rightarrow> field \<Rightarrow> pyval \<Rightarrow> error + pyval" where
  "FieldBase_adapt X self v =
     (if py_type_is_tuple (f_kind self) then Inl TypeError
      else py_construct X (hd (py_types (f_kind self))) v)"

definition Email_adapt :: "externals \<Rightarrow> field \<Rightarrow> pyval \<Rightarrow> error + pyval" where
  "Email_adapt X self v =
     (if v \<noteq> PNone then
        (let s = py_str X v in
         if s = [] then Inr (PStr s)
         else if \<not> x_is_email X s then Inl ValueError
         else Inr (PStr s))
      else Inr v)"

definition URL_adapt :: "externals \<Rightarrow> field \<Rightarrow> pyval \<Rightarrow> error + pyval" where
  "URL_adapt X self v =
     (if v \<noteq> PNone then
        (let s = py_str X v in
         if s = [] then Inr (PStr s)
         else if \<not> x_is_url X s then Inl ValueError
         else Inr (PStr s))
      else Inr v)"

definition to_date :: "pyval \<Rightarrow> pyval" where
  "to_date v = (case v of PDateTime d u \<Rightarrow> PDate d | _ \<Rightarrow> v)"

definition to_time :: "pyval \<Rightarrow> pyval" where
  "to_time v = (case v of PDateTime d u \<Rightarrow> PTime u | _ \<Rightarrow> v)"

definition is_str :: "pyval \<Rightarrow> bool" where
  "is_str v = (case v of PStr s \<Rightarrow> True | _ \<Rightarrow> False)"

definition Date_adapt :: "externals \<Rightarrow> field \<Rightarrow> pyval \<Rightarrow> error + pyval" where
  "Date_adapt X self v =
     (if truthy v \<and> is_str v then
        x_format_datetime X (py_str X v) (f_formats self) (Some to_date)
      else if truthy v \<and> isinstance v T_datetime then Inr (to_date v)
      else Inr v)"

text \<open>\<^verbatim>\<open>(datetime.datetime.min + value).time()\<close> for a \<^verbatim>\<open>timedelta\<close> of \<open>u\<close>
  microseconds; the sum must stay within the years 1 to 9999.\<close>

definition timedelta_time :: "int \<Rightarrow> error + pyval" where
  "timedelta_time u =
     (if u < 0 \<or> 3652059 * 86400000000 \<le> u then Inl OtherError
      else Inr (PTime (u mod 86400000000)))"

definition Time_adapt :: "externals \<Rightarrow> field \<Rightarrow> pyval \<Rightarrow> error + pyval" where
  "Time_adapt X self v =
     (case (if truthy v \<and> is_str v then
              x_format_datetime X (py_str X v) (f_formats self) (Some to_time)
            else if truthy v \<and> isinstance v T_datetime then Inr (to_time v)
            else Inr v) of
        Inl e \<Rightarrow> Inl e
      | Inr w \<Rightarrow> (case w of PTimedelta u \<Rightarrow> timedelta_time u | _ \<Rightarrow> Inr w))"

definition DateTime_adapt :: "externals \<Rightarrow> field \<Rightarrow> pyval \<Rightarrow> error + pyval" where
  "DateTime_adapt X self v =
     (if truthy v \<and> is_str v then x_format_datetime X (py_str X v) (f_formats self) None
      else Inr v)"

text \<open>The method \<^verbatim>\<open>adapt\<close> as the object's class resolves it.\<close>

definition adapt :: "externals \<Rightarrow> field \<Rightarrow> pyval \<Rightarrow> error + pyval" where
  "adapt X self v =
     (case f_kind self of
        K_Email \<Rightarrow> Email_adapt X self v
      | K_URL \<Rightarrow> URL_adapt X self v
      | K_Date \<Rightarrow> Date_adapt X self v
      | K_Time \<Rightarrow> Time_adapt X self v
      | K_DateTime \<Rightarrow> DateTime_adapt X self v
      | _ \<Rightarrow> FieldBase_adapt X self v)"

definition FieldBase_py_value :: "externals \<Rightarrow> field \<Rightarrow> pyval \<Rightarrow> error + pyval" where
  "FieldBase_py_value X self v = (if v = PNone then Inr v else adapt X self v)"

definition FieldBase_db_value :: "externals \<Rightarrow> field \<Rightarrow> pyval \<Rightarrow> error + pyval" where
  "FieldBase_db_value X self v = (if v = PNone then Inr v else adapt X self v)"

definition Decimal_db_value :: "externals \<Rightarrow> field \<Rightarrow> pyval \<Rightarrow> error + pyval" where
  "Decimal_db_value X self v =
     (if \<not> truthy v then (if v = PNone then Inr v else Inr (PDecimal False 0 0))
      else if f_auto_round self then
        (case f_length self of
           Some (LPair p k) \<Rightarrow>
             (case pow10_exponent X k of
                Inl e \<Rightarrow> Inl e
              | Inr te \<Rightarrow>
                  (case Decimal_of_str X (py_str X v) of
                     Inl e \<Rightarrow> Inl e
                   | Inr d \<Rightarrow>
                       (case d of
                          PDecimal sg c ex \<Rightarrow> quantize sg c ex te (f_rounding self)
                        | _ \<Rightarrow> x_quantize X d te (f_rounding self))))
         | _ \<Rightarrow> Inl TypeError)
      else Decimal_of_str X (py_str X v))"

definition Decimal_py_value :: "externals \<Rightarrow> field \<Rightarrow> pyval \<Rightarrow> error + pyval" where
  "Decimal_py_value X self v =
     (if v \<noteq> PNone then
        (if isinstance v T_Decimal then Inr v else Decimal_of_str X (py_str X v))
      else Inr PNone)"

definition UUID_db_value :: "externals \<Rightarrow> field \<Rightarrow> pyval \<Rightarrow> error + pyval" where
  "UUID_db_value X self v =
     (if (case v of PStr s \<Rightarrow> length s = 32 | _ \<Rightarrow> False) then Inr v
      else
        (let v1 = (case v of
                     PBytes bs \<Rightarrow> if length bs = 16 then PUUID (hex_of_bytes bs) else v
                   | _ \<Rightarrow> v)
         in case v1 of
              PUUID h \<Rightarrow> Inr (PStr h)
            | _ \<Rightarrow> (case UUID_construct X v1 of
                       Inr h \<Rightarrow> Inr (PStr h)
                     | Inl e \<Rightarrow> Inr v1)))"

definition UUID_py_value :: "externals \<Rightarrow> field \<Rightarrow> pyval \<Rightarrow> error + pyval" where
  "UUID_py_value X self v =
     (if isinstance v T_UUID then Inr v
      else if v \<noteq> PNone then
        (case UUID_construct X v of Inl e \<Rightarrow> Inl e | Inr h \<Rightarrow> Inr (PUUID h))
      else Inr PNone)"

definition IP_db_value :: "externals \<Rightarrow> field \<Rightarrow> pyval \<Rightarrow> error + pyval" where
  "IP_db_value X self v = (if v \<noteq> PNone then x_iptoint X (py_str X v) else Inr v)"

definition IP_py_value :: "externals \<Rightarrow> field \<Rightarrow> pyval \<Rightarrow> error + pyval" where
  "IP_py_value X self v =
     (if v \<noteq> PNone then
        (if isinstance v T_int then x_iptostr X v
         else if \<not> is_str v then Inl TypeError
         else if \<not> truthy v then Inr v
         else (case x_iptoint X (py_str X v) of Inl e \<Rightarrow> Inl e | Inr n \<Rightarrow> Inr v))
      else Inr v)"

definition Timestamp_db_value :: "externals \<Rightarrow> field \<Rightarrow> pyval \<Rightarrow> error + pyval" where
  "Timestamp_db_value X self v =
     (if v = PNone then Inr v
      else if \<not> isinstance v T_datetime then
        (case v of
           PDate d \<Rightarrow> Inr (PDateTime d 0)
         | PStr s \<Rightarrow> x_simple_datetime X v
         | _ \<Rightarrow> (case x_round X v of
                    Inl e \<Rightarrow> Inl e
                  | Inr n \<Rightarrow> x_fromtimestamp X (f_utc self) (PInt n)))
      else Inr v)"

definition Timestamp_py_value :: "externals \<Rightarrow> field \<Rightarrow> pyval \<Rightarrow> error + pyval" where
  "Timestamp_py_value X self v =
     (if v \<noteq> PNone then
        (if isinstance v T_int \<or> isinstance v T_float
         then x_fromtimestamp X (f_utc self) v
         else x_simple_datetime X v)
      else Inr v)"

text \<open>The methods \<^verbatim>\<open>py_value\<close> and \<^verbatim>\<open>db_value\<close> as the object's class resolves
  them: four classes override them, every other class inherits \<^verbatim>\<open>FieldBase\<close>'s.\<close>

definition py_value :: "externals \<Rightarrow> field \<Rightarrow> pyval \<Rightarrow> error + pyval" where
  "py_value X self v =
     (case f_kind self of
        K_Decimal \<Rightarrow> Decimal_py_value X self v
      | K_UUID \<Rightarrow> UUID_py_value X self v
      | K_IP \<Rightarrow> IP_py_value X self v
      | K_Timestamp \<Rightarrow> Timestamp_py_value X self v
      | _ \<Rightarrow> FieldBase_py_value X self v)"

definition db_value :: "externals \<Rightarrow> field \<Rightarrow> pyval \<Rightarrow> error + pyval" where
  "db_value X self v =
     (case f_kind self of
        K_Decimal \<Rightarrow> Decimal_db_value X self v
      | K_UUID \<Rightarrow> UUID_db_value X self v
      | K_IP \<Rightarrow> IP_db_value X self v
      | K_Timestamp \<Rightarrow> Timestamp_db_value X self v
      | _ \<Rightarrow> FieldBase_db_value X self v)"

definition Timestamp_FORMATS :: "string list" where
  "Timestamp_FORMATS = [''%Y-%m-%d %H:%M:%S'', ''%Y-%m-%d %H:%M:%S.%f'']"

definition FieldBase_to_str :: "externals \<Rightarrow> field \<Rightarrow> pyval \<Rightarrow> error + string" where
  "FieldBase_to_str X self v =
     (if v = PNone then Inl ValueError
      else (case db_value X self v of Inl e \<Rightarrow> Inl e | Inr w \<Rightarrow> Inr (py_str X w)))"

definition Bool_to_str :: "externals \<Rightarrow> field \<Rightarrow> pyval \<Rightarrow> error + string" where
  "Bool_to_str X self v =
     (case py_value X self v of
        Inl e \<Rightarrow> Inl e
      | Inr w \<Rightarrow> Inr (if truthy w then ''1'' else ''0''))"

definition Date_to_str :: "externals \<Rightarrow> field \<Rightarrow> pyval \<Rightarrow> error + string" where
  "Date_to_str X self v =
     (case db_value X self v of
        Inl e \<Rightarrow> Inl e
      | Inr w \<Rightarrow> x_dt_strftime X w (f_formats self))"

definition Timestamp_to_str :: "externals \<Rightarrow> field \<Rightarrow> pyval \<Rightarrow> error + string" where
  "Timestamp_to_str X self v =
     (case db_value X self v of
        Inl e \<Rightarrow> Inl e
      | Inr w \<Rightarrow> x_dt_strftime X w Timestamp_FORMATS)"

definition to_str :: "externals \<Rightarrow> field \<Rightarrow> pyval \<Rightarrow> error + string" where
  "to_str X self v =
     (case f_kind self of
        K_Bool \<Rightarrow> Bool_to_str X self v
      | K_Date \<Rightarrow> Date_to_str X self v
      | K_Time \<Rightarrow> Date_to_str X self v
      | K_DateTime \<Rightarrow> Date_to_str X self v
      | K_Timestamp \<Rightarrow> Timestamp_to_str X self v
      | _ \<Rightarrow> FieldBase_to_str X self v)"

subsection \<open>Column definitions\<close>

definition NULL :: string where
  "NULL = ''null''"

text \<open>The options \<^verbatim>\<open>FieldDDL._parse_options\<close> collects; \<open>o_adapt\<close> is the bound
  method \<^verbatim>\<open>self.field.to_str\<close>.  Reading the slot \<^verbatim>\<open>null\<close> of an object that never
  assigned it raises.\<close>

record ops =
  o_auto :: "bool option"
  o_unsigned :: "bool option"
  o_zerofill :: "bool option"
  o_encoding :: "string option"
  o_default :: pyval
  o_allow_null :: bool
  o_comment :: string
  o_adapt :: "pyval \<Rightarrow> error + string"

definition parse_options :: "externals \<Rightarrow> field \<Rightarrow> error + ops" where
  "parse_options X self =
     (case f_null self of
        None \<Rightarrow> Inl AttributeError
      | Some allow_null \<Rightarrow>
          Inr \<lparr> o_auto = f_auto self,
                o_unsigned = f_unsigned self,
                o_zerofill = f_zerofill self,
                o_encoding = f_encoding self,
                o_default = (case f_default self of None \<Rightarrow> PStr NULL | Some d \<Rightarrow> d),
                o_allow_null = allow_null,
                o_comment = f_comment self,
                o_adapt = to_str X self \<rparr>)"

definition apostrophe :: string where
  "apostrophe = [CHR 0x27]"

text \<open>The local function \<^verbatim>\<open>to_default_sql\<close> of \<^verbatim>\<open>FieldDDL._parse_default\<close>.\<close>

definition to_default_sql :: "ops \<Rightarrow> pyval \<Rightarrow> error + string option" where
  "to_default_sql ops d =
     (case d of
        PSQL s \<Rightarrow> Inr (Some (''DEFAULT '' @ s))
      | PCallable k \<Rightarrow> Inr None
      | PCallableColumn k \<Rightarrow> Inr None
      | _ \<Rightarrow> (case o_adapt ops d of
                 Inl e \<Rightarrow> Inl e
               | Inr s \<Rightarrow> Inr (Some (''DEFAULT '' @ apostrophe @ s @ apostrophe))))"

text \<open>
  The tests \<^verbatim>\<open>ops.default == NULL\<close> and \<^verbatim>\<open>ops.default in (None, NULL)\<close>.  They
  compare with \<^verbatim>\<open>==\<close>; for a column object \<^verbatim>\<open>ColumnBase.__eq__\<close> answers with an
  expression, which is true as a condition.
\<close>

definition is_column_default :: "pyval \<Rightarrow> bool" where
  "is_column_default d = (case d of PCallableColumn k \<Rightarrow> True | _ \<Rightarrow> False)"

definition eq_NULL :: "pyval \<Rightarrow> bool" where
  "eq_NULL d = (d = PStr NULL \<or> is_column_default d)"

definition in_None_NULL :: "pyval \<Rightarrow> bool" where
  "in_None_NULL d = (d = PNone \<or> eq_NULL d)"

text \<open>\<^verbatim>\<open>FieldDDL._parse_default\<close>; the result is the text of the \<^verbatim>\<open>SQL\<close> node it
  returns.\<close>

definition parse_default :: "ops \<Rightarrow> string \<Rightarrow> error + string option" where
  "parse_default ops dbt =
     (if o_auto ops = Some True then Inr (Some ''NOT NULL AUTO_INCREMENT'')
      else if o_allow_null ops then
        (if o_default ops = PNone then
           Inr (Some (if dbt = ''timestamp'' then ''NULL DEFAULT NULL'' else ''DEFAULT NULL''))
         else if eq_NULL (o_default ops) then Inr (Some ''NULL'')
         else
           (case to_default_sql ops (o_default ops) of
              Inl e \<Rightarrow> Inl e
            | Inr None \<Rightarrow>
                Inr (Some (if dbt = ''timestamp'' then ''NULL DEFAULT NULL'' else ''DEFAULT NULL''))
            | Inr (Some ds) \<Rightarrow> Inr (Some ds)))
      else
        (if in_None_NULL (o_default ops) then Inr (Some ''NOT NULL'')
         else
           (case to_default_sql ops (o_default ops) of
              Inl e \<Rightarrow> Inl e
            | Inr None \<Rightarrow> Inr (Some ''NOT NULL'')
            | Inr (Some ds) \<Rightarrow>
                Inr (Some (if ds \<noteq> [] then ''NOT NULL'' @ '' '' @ ds else ''NOT NULL'')))))"

text \<open>The default clause as \<^verbatim>\<open>FieldDDL(field).parse()\<close> computes it:
  \<^verbatim>\<open>self._parse_default(self._parse_options(), self.field.db_type)\<close>.\<close>

definition default_clause :: "externals \<Rightarrow> field \<Rightarrow> error + string option" where
  "default_clause X self =
     (case parse_options X self of
        Inl e \<Rightarrow> Inl e
      | Inr ops \<Rightarrow> parse_default ops (db_type (f_kind self)))"

subsection \<open>Construction\<close>

text \<open>
  An object before \<^verbatim>\<open>__init__\<close> has assigned its slots.  The decorator
  \<^verbatim>\<open>argschecker(null=bool, comment=str)\<close> checks the types of two arguments; they are
  typed here.  A constructor returns the object and the warnings it emitted.
\<close>

definition new_object :: "fkind \<Rightarrow> field" where
  "new_object k =
     \<lparr> f_kind = k, f_null = None, f_default = None, f_comment = [], f_name = None,
       f_table = None, f_length = None, f_unsigned = None, f_zerofill = None,
       f_primary_key = None, f_auto = None, f_encoding = None, f_auto_round = False,
       f_rounding = [], f_formats = [], f_utc = False \<rparr>"

definition custom_wain :: "field \<Rightarrow> string list" where
  "custom_wain self =
     (if f_kind self = K_UUID \<or> f_kind self = K_Timestamp then []
      else if f_null self = Some False \<and> f_default self = Some PNone then
        (if f_primary_key self \<noteq> Some True
         then [''Not to give default value for NOT NULL field '' @ class_name (f_kind self)]
         else [])
      else [])"

definition FieldBase_init ::
  "field \<Rightarrow> bool \<Rightarrow> pyval \<Rightarrow> string \<Rightarrow> string option \<Rightarrow> error + field \<times> string list" where
  "FieldBase_init self null dflt comment name =
     (if truthy dflt \<and>
         \<not> (list_ex (isinstance dflt) (py_types (f_kind self)) \<or> is_SQL dflt \<or> callable dflt)
      then Inl TypeError
      else
        (let self' = self\<lparr> f_null := Some null, f_comment := comment, f_default := Some dflt,
                            f_name := name, f_table := None \<rparr>
         in Inr (self', custom_wain self')))"

definition default_length :: "fkind \<Rightarrow> int" where
  "default_length k =
     (case k of
        K_Tinyint \<Rightarrow> 4 | K_Smallint \<Rightarrow> 6
      | K_Bigint \<Rightarrow> 20 | K_BigAuto \<Rightarrow> 20 | K_IP \<Rightarrow> 20
      | K_Char \<Rightarrow> 254 | K_VarChar \<Rightarrow> 254 | K_URL \<Rightarrow> 254 | K_Email \<Rightarrow> 100
      | _ \<Rightarrow> 11)"

text \<open>\<^verbatim>\<open>length or self.default_length\<close>.\<close>

definition length_or_default :: "fkind \<Rightarrow> int option \<Rightarrow> int" where
  "length_or_default k len =
     (case len of None \<Rightarrow> default_length k | Some n \<Rightarrow> if n = 0 then default_length k else n)"

definition Tinyint_init ::
  "field \<Rightarrow> int option \<Rightarrow> bool \<Rightarrow> bool \<Rightarrow> bool \<Rightarrow> pyval \<Rightarrow> string \<Rightarrow> string option
     \<Rightarrow> error + field \<times> string list" where
  "Tinyint_init self len unsigned zerofill null dflt comment name =
     FieldBase_init
       (self\<lparr> f_length := Some (LInt (length_or_default (f_kind self) len)),
               f_unsigned := Some unsigned, f_zerofill := Some zerofill \<rparr>)
       null dflt comment name"

text \<open>\<^verbatim>\<open>Int.__init__\<close>, which \<^verbatim>\<open>Bigint\<close> and \<^verbatim>\<open>IP\<close> inherit; \<open>k\<close> is the class of
  the object under construction.\<close>

definition Int_init ::
  "fkind \<Rightarrow> int option \<Rightarrow> bool \<Rightarrow> bool \<Rightarrow> bool \<Rightarrow> bool \<Rightarrow> bool \<Rightarrow> pyval \<Rightarrow> string
     \<Rightarrow> string option \<Rightarrow> error + field \<times> string list" where
  "Int_init k len unsigned zerofill primary_key auto null dflt comment name =
     (let self = (new_object k)\<lparr> f_length := Some (LInt (length_or_default k len)),
                                  f_primary_key := Some primary_key, f_auto := Some auto \<rparr>
      in if primary_key then
           (if dflt \<noteq> PNone
            then Inl (ProgrammingError ''Primary key field not allow set default'')
            else Tinyint_init self len unsigned zerofill False dflt comment name)
         else if auto then
           Inl (ProgrammingError
                  (apostrophe @ ''AUTO_INCREMENT'' @ apostrophe
                     @ '' cannot be set for non-primary key fields''))
         else Tinyint_init self len unsigned zerofill null dflt comment name)"

text \<open>\<^verbatim>\<open>Auto.__init__\<close>, which \<^verbatim>\<open>BigAuto\<close> inherits.\<close>

definition Auto_init ::
  "fkind \<Rightarrow> int option \<Rightarrow> bool \<Rightarrow> bool \<Rightarrow> string \<Rightarrow> string option
     \<Rightarrow> error + field \<times> string list" where
  "Auto_init k len unsigned zerofill comment name =
     Int_init k (Some (length_or_default k len)) unsigned zerofill True True False PNone
       comment name"

definition default_md :: flength where
  "default_md = LPair 10 5"

definition Decimal_init ::
  "flength option \<Rightarrow> bool \<Rightarrow> bool \<Rightarrow> bool \<Rightarrow> string option \<Rightarrow> pyval \<Rightarrow> string
     \<Rightarrow> string option \<Rightarrow> error + field \<times> string list" where
  "Decimal_init len unsigned null auto_round rounding dflt comment name =
     (if (case len of Some (LInt n) \<Rightarrow> n \<noteq> 0 | _ \<Rightarrow> False) then Inl TypeError
      else
        FieldBase_init
          ((new_object K_Decimal)
             \<lparr> f_length := Some (case len of Some (LPair p q) \<Rightarrow> LPair p q | _ \<Rightarrow> default_md),
               f_unsigned := Some unsigned,
               f_auto_round := auto_round,
               f_rounding := (case rounding of
                                None \<Rightarrow> ''ROUND_HALF_EVEN''
                              | Some r \<Rightarrow> if r = [] then ''ROUND_HALF_EVEN'' else r) \<rparr>)
          null dflt comment name)"

text \<open>\<^verbatim>\<open>Timestamp.__init__\<close>.\<close>

definition Timestamp_init ::
  "bool \<Rightarrow> bool \<Rightarrow> pyval \<Rightarrow> string \<Rightarrow> string option \<Rightarrow> error + field \<times> string list" where
  "Timestamp_init utc null dflt comment name =
     FieldBase_init ((new_object K_Timestamp)\<lparr> f_utc := utc \<rparr>) null dflt comment name"

text \<open>\<^verbatim>\<open>UUID.__init__\<close>.\<close>

definition UUID_init ::
  "bool \<Rightarrow> pyval \<Rightarrow> string \<Rightarrow> string option \<Rightarrow> error + field \<times> string list" where
  "UUID_init primary_key dflt comment name =
     (if primary_key \<and> dflt \<noteq> PNone
      then Inl (ProgrammingError ''Primary key field not allow set default'')
      else FieldBase_init ((new_object K_UUID)\<lparr> f_primary_key := Some primary_key \<rparr>)
             False dflt comment name)"

subsection \<open>Tables\<close>

text \<open>
  Field objects are shared between the caller and the table, so they live in a store
  of objects; \<^verbatim>\<open>Table.__init__\<close> returns the store it leaves behind together with
  the table or the error.  A field's back-reference holds the table object as
  \<^verbatim>\<open>__init__\<close> has assigned it.
\<close>

type_synonym store = "nat \<Rightarrow> field option"

definition set_table :: "table \<Rightarrow> (string \<times> nat) \<Rightarrow> store \<Rightarrow> store" where
  "set_table self kv H =
     (case H (snd kv) of
        None \<Rightarrow> H
      | Some f \<Rightarrow> H(snd kv := Some (f\<lparr> f_table := Some self \<rparr>)))"

definition str_or :: "string option \<Rightarrow> string \<Rightarrow> string" where
  "str_or s d = (case s of None \<Rightarrow> d | Some t \<Rightarrow> if t = [] then d else t)"

definition Table_init ::
  "store \<Rightarrow> string option \<Rightarrow> string \<Rightarrow> (string \<times> nat) list \<Rightarrow> primary
     \<Rightarrow> index list option \<Rightarrow> string option \<Rightarrow> string option \<Rightarrow> string option
     \<Rightarrow> store \<times> (error + table)" where
  "Table_init H database name fields_dict prim indexes engine charset comment =
     (let self = \<lparr> t_db = database, t_name = name, t_fields_dict = fields_dict,
                   t_primary = prim, t_indexes = indexes,
                   t_auto_increment =
                     (case p_begin prim of None \<Rightarrow> 1 | Some b \<Rightarrow> if b = 0 then 1 else b),
                   t_engine = str_or engine ''InnoDB'',
                   t_charset = str_or charset ''utf8'',
                   t_comment = str_or comment [] \<rparr>;
          H' = fold (set_table self) fields_dict H
      in if p_field prim = None then (H', Inl NoPKError) else (H', Inr self))"

text \<open>The property \<^verbatim>\<open>Table.table_name\<close>.\<close>

definition table_name :: "table \<Rightarrow> string" where
  "table_name t =
     (case t_db t of
        None \<Rightarrow> ''`'' @ t_name t @ ''`''
      | Some d \<Rightarrow> if d = [] then ''`'' @ t_name t @ ''`''
                  else ''`'' @ d @ ''`.`'' @ t_name t @ ''`'')"

section \<open>Nodes\<close>

text \<open>The operator table \<^verbatim>\<open>ColumnBase.OPERATOR\<close>: keys and their SQL spellings.  An
  expression stores the spelling.\<close>

datatype opkey =
    O_AND | O_OR | O_ADD | O_SUB | O_MUL | O_DIV | O_BIN_AND | O_BIN_OR | O_XOR | O_MOD
  | O_EQ | O_LT | O_LTE | O_GT | O_GTE | O_NE | O_IN | O_NOT_IN | O_IS | O_IS_NOT
  | O_LIKE | O_ILIKE | O_EXISTS | O_NEXISTS | O_BETWEEN | O_NBETWEEN | O_REGEXP
  | O_IREGEXP | O_BITWISE_NEGATION | O_CONCAT

definition OPERATOR :: "opkey \<Rightarrow> string" where
  "OPERATOR k =
     (case k of
        O_AND \<Rightarrow> ''AND'' | O_OR \<Rightarrow> ''OR'' | O_ADD \<Rightarrow> ''+'' | O_SUB \<Rightarrow> ''-''
      | O_MUL \<Rightarrow> ''*'' | O_DIV \<Rightarrow> ''/'' | O_BIN_AND \<Rightarrow> ''&'' | O_BIN_OR \<Rightarrow> ''|''
      | O_XOR \<Rightarrow> ''#'' | O_MOD \<Rightarrow> ''%'' | O_EQ \<Rightarrow> ''='' | O_LT \<Rightarrow> ''<''
      | O_LTE \<Rightarrow> ''<='' | O_GT \<Rightarrow> ''>'' | O_GTE \<Rightarrow> ''>='' | O_NE \<Rightarrow> ''!=''
      | O_IN \<Rightarrow> ''IN'' | O_NOT_IN \<Rightarrow> ''NOT IN'' | O_IS \<Rightarrow> ''IS''
      | O_IS_NOT \<Rightarrow> ''IS NOT'' | O_LIKE \<Rightarrow> ''LIKE BINARY'' | O_ILIKE \<Rightarrow> ''LIKE''
      | O_EXISTS \<Rightarrow> ''EXISTS'' | O_NEXISTS \<Rightarrow> ''NOT EXISTS''
      | O_BETWEEN \<Rightarrow> ''BETWEEN'' | O_NBETWEEN \<Rightarrow> ''NOT BETWEEN''
      | O_REGEXP \<Rightarrow> ''REGEXP BINARY'' | O_IREGEXP \<Rightarrow> ''REGEXP''
      | O_BITWISE_NEGATION \<Rightarrow> ''~'' | O_CONCAT \<Rightarrow> ''||'')"

datatype seqtype = S_list | S_tuple | S_set | S_frozenset

text \<open>
  The objects an expression tree is built from.  \<open>Val v\<close> is a host value (of which
  only \<open>PSQL\<close> is a node), \<open>Seq\<close> a host sequence; the other constructors are the
  node classes, with their slots as arguments.  \<^verbatim>\<open>StrExpression\<close> inherits
  \<^verbatim>\<open>__sql__\<close> from \<^verbatim>\<open>Expression\<close> and is an \<open>Expression\<close> here.
\<close>

datatype obj =
    Val pyval
  | Seq seqtype "obj list"
  | NodeList "obj list"
  | EnclosedNodeList "obj list"
  | FieldBase field
  | Ordering obj string
  | Alias obj string
  | Expression obj string obj bool
  | Func_node string obj
  | Table table
  | Index index

text \<open>\<^verbatim>\<open>isinstance(x, Node)\<close>, \<^verbatim>\<open>isinstance(x, SEQUENCE)\<close>,
  \<^verbatim>\<open>isinstance(x, Column)\<close> and \<^verbatim>\<open>isinstance(x, FieldBase)\<close>.\<close>

definition is_node :: "obj \<Rightarrow> bool" where
  "is_node x = (case x of Val v \<Rightarrow> is_SQL v | Seq k xs \<Rightarrow> False | _ \<Rightarrow> True)"

definition is_sequence :: "obj \<Rightarrow> bool" where
  "is_sequence x = (case x of Seq k xs \<Rightarrow> True | _ \<Rightarrow> False)"

definition is_column :: "obj \<Rightarrow> bool" where
  "is_column x =
     (case x of
        FieldBase f \<Rightarrow> True | Ordering n k \<Rightarrow> True | Alias n a \<Rightarrow> True
      | Expression l op r p \<Rightarrow> True | _ \<Rightarrow> False)"

definition is_field :: "obj \<Rightarrow> bool" where
  "is_field x = (case x of FieldBase f \<Rightarrow> True | _ \<Rightarrow> False)"

subsection \<open>Building expressions\<close>

text \<open>\<^verbatim>\<open>ColumnBase.__eq__\<close> and \<^verbatim>\<open>ColumnBase.__ne__\<close>; \<^verbatim>\<open>rhs is None\<close> holds of the
  host value \<^verbatim>\<open>None\<close> only.  Then the builders \<^verbatim>\<open>in_\<close>, \<^verbatim>\<open>nin_\<close>, \<^verbatim>\<open>exists\<close>
  and \<^verbatim>\<open>nexists\<close>.\<close>

definition col_eq :: "obj \<Rightarrow> obj \<Rightarrow> obj" where
  "col_eq self rhs =
     Expression self (if rhs = Val PNone then OPERATOR O_IS else OPERATOR O_EQ) rhs True"

definition col_ne :: "obj \<Rightarrow> obj \<Rightarrow> obj" where
  "col_ne self rhs =
     Expression self (if rhs = Val PNone then OPERATOR O_IS_NOT else OPERATOR O_NE) rhs True"

definition col_in :: "obj \<Rightarrow> obj \<Rightarrow> obj" where
  "col_in self rhs = Expression self (OPERATOR O_IN) rhs True"

definition col_nin :: "obj \<Rightarrow> obj \<Rightarrow> obj" where
  "col_nin self rhs = Expression self (OPERATOR O_NOT_IN) rhs True"

definition col_exists :: "obj \<Rightarrow> obj \<Rightarrow> obj" where
  "col_exists self rhs = Expression self (OPERATOR O_EXISTS) rhs True"

definition col_nexists :: "obj \<Rightarrow> obj \<Rightarrow> obj" where
  "col_nexists self rhs = Expression self (OPERATOR O_NEXISTS) rhs True"



text \<open>\<^verbatim>\<open>str.upper\<close> on ASCII letters, and \<^verbatim>\<open>Func.__init__\<close>.\<close>

definition upper_char :: "char \<Rightarrow> char" where
  "upper_char c =
     (case map_of (zip ''abcdefghijklmnopqrstuvwxyz'' ''ABCDEFGHIJKLMNOPQRSTUVWXYZ'') c of
        Some d \<Rightarrow> d
      | None \<Rightarrow> c)"

definition upper :: "string \<Rightarrow> string" where
  "upper s = map upper_char s"


section \<open>Rendering\<close>

subsection \<open>The rendering context\<close>

text \<open>
  Modelled from the spec: the class \<^verbatim>\<open>Context\<close> of \<^verbatim>\<open>_helper\<close> is not part of the
  module.  The spec describes it as the per-render state: the accumulated SQL text,
  the accumulated parameter values, the rendering options (bound parameters or inline
  literals, parenthesised position, nested-list rendering, the active value
  converter) and the map from alias names to real names.  \<open>c_props\<close> is the
  attribute \<^verbatim>\<open>ctx.props\<close> that \<^verbatim>\<open>FieldBase.__sql__\<close> and \<^verbatim>\<open>Table.__sql__\<close> read.
  The active converter is the bound method \<^verbatim>\<open>field.db_value\<close>, kept as its field.
\<close>

record state =
  s_parens :: bool
  s_params :: bool
  s_nesting :: bool
  s_converter :: "field option"

record ctx =
  c_sql :: string
  c_values :: "pyval list"
  c_aliases :: "string \<Rightarrow> string option"
  c_props :: "(string \<times> pyval) list"
  c_state :: state

text \<open>Modelled from the spec: a context is created fresh for each render call, with
  nothing accumulated; \<open>ps\<close> are the properties its creator sets.\<close>

definition Context_new :: "(string \<times> pyval) list \<Rightarrow> ctx" where
  "Context_new ps =
     \<lparr> c_sql = [], c_values = [], c_aliases = (\<lambda>a. None), c_props = ps,
       c_state = \<lparr> s_parens = False, s_params = False, s_nesting = False,
                   s_converter = None \<rparr> \<rparr>"

text \<open>Modelled from the spec: \<^verbatim>\<open>ctx.literal(text)\<close> appends a fragment of SQL
  text.\<close>

definition literal :: "ctx \<Rightarrow> string \<Rightarrow> ctx" where
  "literal c t = c\<lparr> c_sql := c_sql c @ t \<rparr>"

text \<open>
  Modelled from the spec: \<^verbatim>\<open>with ctx(**overrides):\<close> applies the given options for
  the block, opens a parenthesis when the position is parenthesised, closes it at the
  end of the block and restores the options.  An option that is not given keeps its
  value.
\<close>

record overrides =
  ov_parens :: "bool option"
  ov_params :: "bool option"
  ov_nesting :: "bool option"
  ov_converter :: "field option"

definition no_overrides :: overrides where
  "no_overrides =
     \<lparr> ov_parens = None, ov_params = None, ov_nesting = None, ov_converter = None \<rparr>"

text \<open>Modelled from the spec: entering the block \<^verbatim>\<open>with ctx(**overrides):\<close> of the
  missing \<^verbatim>\<open>Context\<close>.\<close>

definition enter :: "ctx \<Rightarrow> overrides \<Rightarrow> ctx" where
  "enter c ov =
     (let st = c_state c;
          st' = \<lparr> s_parens = (case ov_parens ov of None \<Rightarrow> s_parens st | Some b \<Rightarrow> b),
                  s_params = (case ov_params ov of None \<Rightarrow> s_params st | Some b \<Rightarrow> b),
                  s_nesting = (case ov_nesting ov of None \<Rightarrow> s_nesting st | Some b \<Rightarrow> b),
                  s_converter = (case ov_converter ov of
                                   None \<Rightarrow> s_converter st | Some f \<Rightarrow> Some f) \<rparr>;
          c' = c\<lparr> c_state := st' \<rparr>
      in if s_parens st' then literal c' ''('' else c')"

text \<open>Modelled from the spec: leaving the block, with the options saved at its
  entry.\<close>

definition leave :: "state \<Rightarrow> ctx \<Rightarrow> ctx" where
  "leave saved c =
     (if s_parens (c_state c) then literal c '')'' else c)\<lparr> c_state := saved \<rparr>"

text \<open>
  Modelled from the spec: a host value that is no node is bound as a parameter, after
  the active converter has converted it; the text gets the placeholder \<^verbatim>\<open>?\<close>.  With
  bound parameters switched off the value is written inline, which is left to
  \<open>x_inline\<close>.
\<close>

definition bind_value :: "externals \<Rightarrow> ctx \<Rightarrow> pyval \<Rightarrow> error + ctx" where
  "bind_value X c v =
     (case (case s_converter (c_state c) of
              None \<Rightarrow> Inr v
            | Some f \<Rightarrow> db_value X f v) of
        Inl e \<Rightarrow> Inl e
      | Inr w \<Rightarrow>
          if s_params (c_state c)
          then Inr (c\<lparr> c_sql := c_sql c @ ''?'', c_values := c_values c @ [w] \<rparr>)
          else Inr (literal c (x_inline X w)))"

text \<open>
  Modelled from the spec: \<^verbatim>\<open>ctx.table_alias(name)\<close> yields the alias of a table and
  registers alias mappings; which alias and which mappings is left to
  \<open>x_table_alias\<close>.
\<close>

definition register :: "string \<times> string \<Rightarrow> (string \<Rightarrow> string option) \<Rightarrow> string \<Rightarrow> string option" where
  "register kv m = m(fst kv := Some (snd kv))"

definition table_alias :: "externals \<Rightarrow> ctx \<Rightarrow> string \<Rightarrow> string \<times> ctx" where
  "table_alias X c n =
     (fst (x_table_alias X (c_aliases c) n),
      c\<lparr> c_aliases := fold register (snd (x_table_alias X (c_aliases c) n)) (c_aliases c) \<rparr>)"

definition props_select :: "ctx \<Rightarrow> bool" where
  "props_select c = (map_of (c_props c) ''select'' = Some (PBool True))"

subsection \<open>The nodes' render methods\<close>

text \<open>The property \<^verbatim>\<open>FieldBase.column\<close>.\<close>

definition column :: "field \<Rightarrow> error + string" where
  "column self =
     (case f_name self of
        None \<Rightarrow> Inl NoColumnNameError
      | Some n \<Rightarrow> if n = [] then Inl NoColumnNameError else Inr (''`'' @ n @ ''`''))"

text \<open>\<^verbatim>\<open>FieldBase.__sql__\<close>.\<close>

definition Field_sql :: "externals \<Rightarrow> ctx \<Rightarrow> field \<Rightarrow> error + ctx" where
  "Field_sql X c self =
     (case f_table self of
        None \<Rightarrow> (case column self of Inl e \<Rightarrow> Inl e | Inr col \<Rightarrow> Inr (literal c col))
      | Some t \<Rightarrow>
          if c_props c \<noteq> [] then
            (let (tn, c1) = (if props_select c then table_alias X c (t_name t)
                             else (table_name t, c))
             in case column self of
                  Inl e \<Rightarrow> Inl e
                | Inr col \<Rightarrow> Inr (literal c1 (tn @ ''.'' @ col)))
          else (case column self of Inl e \<Rightarrow> Inl e | Inr col \<Rightarrow> Inr (literal c col)))"

text \<open>\<^verbatim>\<open>Table.__sql__\<close> and \<^verbatim>\<open>IndexBase.__sql__\<close>.\<close>

definition Table_sql :: "externals \<Rightarrow> ctx \<Rightarrow> table \<Rightarrow> ctx" where
  "Table_sql X c self =
     (if props_select c then
        (let (a, c1) = table_alias X c (t_name self)
         in literal c1 (table_name self @ '' AS '' @ a))
      else literal c (table_name self))"

definition Index_sql :: "ctx \<Rightarrow> index \<Rightarrow> ctx" where
  "Index_sql c self = literal c (''`'' @ i_name self @ ''`'')"

text \<open>The second half of \<^verbatim>\<open>Alias.__sql__\<close>, after the aliased node and the
  \<^verbatim>\<open>AS\<close> clause are rendered: a column registers its alias.\<close>

definition realname :: "obj \<Rightarrow> string \<Rightarrow> string" where
  "realname node alias =
     (case node of
        FieldBase f \<Rightarrow> (case f_name f of None \<Rightarrow> alias | Some n \<Rightarrow> if n = [] then alias else n)
      | _ \<Rightarrow> alias)"

definition alias_register :: "ctx \<Rightarrow> obj \<Rightarrow> string \<Rightarrow> error + ctx" where
  "alias_register c node alias =
     (if is_column node then
        (if c_aliases c alias \<noteq> None
         then Inl (ProgrammingError (''Ambiguous alias: '' @ alias))
         else Inr (c\<lparr> c_aliases := (c_aliases c)(alias := Some (realname node alias)) \<rparr>))
      else Inr c)"

text \<open>The first half of \<^verbatim>\<open>Expression.__sql__\<close>: the overrides and the operator
  test.\<close>

definition in_ops :: "string list" where
  "in_ops = [OPERATOR O_IN, OPERATOR O_NOT_IN, OPERATOR O_EXISTS, OPERATOR O_NEXISTS]"

definition expr_overrides :: "obj \<Rightarrow> string \<Rightarrow> obj \<Rightarrow> bool \<Rightarrow> overrides" where
  "expr_overrides lhs op rhs parens =
     \<lparr> ov_parens = Some parens,
       ov_params = Some True,
       ov_nesting = (if op \<in> set in_ops then Some True else None),
       ov_converter = (case lhs of
                         FieldBase f \<Rightarrow> Some f
                       | _ \<Rightarrow> (case rhs of FieldBase g \<Rightarrow> Some g | _ \<Rightarrow> None)) \<rparr>"

definition parens_only :: overrides where
  "parens_only = no_overrides\<lparr> ov_parens := Some True \<rparr>"

definition is_str_item :: "obj \<Rightarrow> bool" where
  "is_str_item x = (case x of Val v \<Rightarrow> is_str v | _ \<Rightarrow> False)"

definition str_item :: "obj \<Rightarrow> string" where
  "str_item x = (case x of Val (PStr s) \<Rightarrow> s | _ \<Rightarrow> [])"

text \<open>Modelled from the spec: the node \<^verbatim>\<open>SQL\<close> of \<^verbatim>\<open>_helper\<close> emits its text
  verbatim; any other host value is bound.\<close>

definition Val_sql :: "externals \<Rightarrow> ctx \<Rightarrow> pyval \<Rightarrow> error + ctx" where
  "Val_sql X c v = (case v of PSQL s \<Rightarrow> Inr (literal c s) | _ \<Rightarrow> bind_value X c v)"

text \<open>
  \<open>render X c x\<close> is \<^verbatim>\<open>ctx.sql(x)\<close>: it returns the context and the object as the
  call leaves them, since \<^verbatim>\<open>Expression.__sql__\<close> assigns to \<^verbatim>\<open>self.rhs\<close>.  The
  equations for \<open>FieldBase\<close>, \<open>Ordering\<close>, \<open>Alias\<close>, \<open>Expression\<close>, \<open>Func_node\<close>, \<open>Table\<close>
  and \<open>Index\<close> are the \<^verbatim>\<open>__sql__\<close> methods of the module.

  Modelled from the spec: the equations for \<open>Val\<close>, \<open>Seq\<close>, \<open>NodeList\<close> and
  \<open>EnclosedNodeList\<close>, whose classes \<^verbatim>\<open>Value\<close>, \<^verbatim>\<open>NodeList\<close> and
  \<^verbatim>\<open>EnclosedNodeList\<close> are in \<^verbatim>\<open>_helper\<close>.  A sequence of values becomes an enclosed,
  comma-joined list of bound values; an enclosed node list is parenthesised and
  comma-joined, a node list is joined by blanks; a string among the items of a node
  list is SQL text (the identifiers of an index, the \<^verbatim>\<open>AND\<close> of \<^verbatim>\<open>BETWEEN\<close>).

  In the \<open>Expression\<close> equation the coerced right operand
  \<^verbatim>\<open>EnclosedNodeList([self.rhs])\<close> is rendered in place: parenthesis, the operand,
  parenthesis (lemma \<open>render_enclosed_singleton\<close> below).
\<close>

fun render :: "externals \<Rightarrow> ctx \<Rightarrow> obj \<Rightarrow> error + ctx \<times> obj"
  and render_items ::
    "externals \<Rightarrow> bool \<Rightarrow> string \<Rightarrow> ctx \<Rightarrow> obj list \<Rightarrow> error + ctx \<times> obj list"
where
  "render X c (Val v) =
     (case Val_sql X c v of Inl e \<Rightarrow> Inl e | Inr c1 \<Rightarrow> Inr (c1, Val v))"
| "render X c (Seq k xs) =
     (case render_items X False '', '' (enter c parens_only) xs of
        Inl e \<Rightarrow> Inl e
      | Inr (c1, xs') \<Rightarrow> Inr (leave (c_state c) c1, Seq k xs'))"
| "render X c (NodeList xs) =
     (case render_items X True '' '' (enter c (no_overrides\<lparr> ov_parens := Some False \<rparr>)) xs of
        Inl e \<Rightarrow> Inl e
      | Inr (c1, xs') \<Rightarrow> Inr (leave (c_state c) c1, NodeList xs'))"
| "render X c (EnclosedNodeList xs) =
     (case render_items X True '', '' (enter c parens_only) xs of
        Inl e \<Rightarrow> Inl e
      | Inr (c1, xs') \<Rightarrow> Inr (leave (c_state c) c1, EnclosedNodeList xs'))"
| "render X c (FieldBase f) =
     (case Field_sql X c f of Inl e \<Rightarrow> Inl e | Inr c1 \<Rightarrow> Inr (c1, FieldBase f))"
| "render X c (Ordering node key) =
     (case render X c node of
        Inl e \<Rightarrow> Inl e
      | Inr (c1, node') \<Rightarrow> Inr (literal c1 ('' '' @ key @ '' ''), Ordering node' key))"
| "render X c (Alias node alias) =
     (case render X c node of
        Inl e \<Rightarrow> Inl e
      | Inr (c1, node') \<Rightarrow>
          (case alias_register (literal c1 ('' AS `'' @ alias @ ''`'')) node' alias of
             Inl e \<Rightarrow> Inl e
           | Inr c2 \<Rightarrow> Inr (c2, Alias node' alias)))"
| "render X c (Expression lhs op rhs parens) =
     (if op \<in> set in_ops \<and> \<not> (is_sequence rhs \<or> is_node rhs) then Inl TypeError
      else
        (case render X (enter c (expr_overrides lhs op rhs parens)) lhs of
           Inl e \<Rightarrow> Inl e
         | Inr (c1, lhs') \<Rightarrow>
             (case (if op \<in> set in_ops then
                      (if is_node rhs then
                         (case render X (enter (literal c1 ('' '' @ op @ '' '')) parens_only) rhs of
                            Inl e \<Rightarrow> Inl e
                          | Inr (c2, rhs') \<Rightarrow> Inr (leave (c_state c1) c2, EnclosedNodeList [rhs']))
                       else
                         (case rhs of
                            Seq k xs \<Rightarrow> render X (literal c1 ('' '' @ op @ '' '')) (Seq S_tuple xs)
                          | _ \<Rightarrow> Inl TypeError))
                    else render X (literal c1 ('' '' @ op @ '' '')) rhs) of
                Inl e \<Rightarrow> Inl e
              | Inr (c3, rhs1) \<Rightarrow> Inr (leave (c_state c) c3, Expression lhs' op rhs1 parens))))"
| "render X c (Func_node func node) =
     (case render X (enter (literal c (upper func)) parens_only) node of
        Inl e \<Rightarrow> Inl e
      | Inr (c1, node') \<Rightarrow> Inr (leave (c_state c) c1, Func_node func node'))"
| "render X c (Table t) = Inr (Table_sql X c t, Table t)"
| "render X c (Index i) = Inr (Index_sql c i, Index i)"
| "render_items X lit glue c [] = Inr (c, [])"
| "render_items X lit glue c (x # xs) =
     (case (if lit \<and> is_str_item x then Inr (literal c (str_item x), x) else render X c x) of
        Inl e \<Rightarrow> Inl e
      | Inr (c1, x') \<Rightarrow>
          if xs = [] then Inr (c1, [x'])
          else (case render_items X lit glue (literal c1 glue) xs of
                  Inl e \<Rightarrow> Inl e
                | Inr (c2, xs') \<Rightarrow> Inr (c2, x' # xs')))"

text \<open>
  The render entry point: a fresh context, the SQL text and the parameter list; the
  object is returned as the call leaves it.
\<close>

definition render_entry ::
  "externals \<Rightarrow> (string \<times> pyval) list \<Rightarrow> obj \<Rightarrow> error + (string \<times> pyval list) \<times> obj" where
  "render_entry X ps x =
     (case render X (Context_new ps) x of
        Inl e \<Rightarrow> Inl e
      | Inr (c, x') \<Rightarrow> Inr ((c_sql c, c_values c), x'))"

section \<open>Properties of the field classes\<close>

lemma ndigits_small: "n < 10 \<Longrightarrow> ndigits n = 1"
  by (simp add: ndigits.simps)

lemma ndigits_large: "\<not> n < 10 \<Longrightarrow> ndigits n = Suc (ndigits (n div 10))"
  by (subst ndigits.simps) simp

lemma FieldBase_init_None:
  "FieldBase_init self null PNone comment name =
     Inr (self\<lparr> f_null := Some null, f_comment := comment, f_default := Some PNone,
                 f_name := name, f_table := None \<rparr>,
          custom_wain (self\<lparr> f_null := Some null, f_comment := comment, f_default := Some PNone,
                 f_name := name, f_table := None \<rparr>))"
  by (simp add: FieldBase_init_def Let_def)

text \<open>
  C5.  For every field class, \<^verbatim>\<open>py_value\<close> and \<^verbatim>\<open>db_value\<close> map \<^verbatim>\<open>None\<close> to
  \<^verbatim>\<open>None\<close>: the base class returns it before calling \<^verbatim>\<open>adapt\<close>, and so does each
  of the four overriding classes (\<^verbatim>\<open>UUID.db_value\<close> through its \<^verbatim>\<open>except\<close> branch,
  since \<^verbatim>\<open>uuid.UUID(None)\<close> raises).
\<close>

theorem none_is_identity:
  "py_value X self PNone = Inr PNone \<and> db_value X self PNone = Inr PNone"
proof (cases "f_kind self")
qed (simp_all add: py_value_def db_value_def FieldBase_py_value_def FieldBase_db_value_def
      Decimal_py_value_def Decimal_db_value_def UUID_py_value_def UUID_db_value_def
      IP_py_value_def IP_db_value_def Timestamp_py_value_def Timestamp_db_value_def
      isinstance_def UUID_construct_def)

text \<open>
  C2, as the code has it.  For a field that is not nullable and not auto-increment the
  default clause is \<^verbatim>\<open>NOT NULL\<close> when there is no default (the slot is unassigned,
  \<^verbatim>\<open>None\<close>, or equal to the sentinel \<^verbatim>\<open>'null'\<close>) and when the default is a callable;
  it is \<^verbatim>\<open>NOT NULL DEFAULT <sql>\<close>, the text verbatim, when the default is a raw SQL
  literal; and for any other default it is \<^verbatim>\<open>NOT NULL DEFAULT '<s>'\<close> with \<open>s\<close> the
  result of the field's \<^verbatim>\<open>to_str\<close>, whose error is passed on.
\<close>

theorem non_null_default_clause:
  assumes "f_null self = Some False" and "f_auto self \<noteq> Some True"
  shows "default_clause X self =
     (case f_default self of
        None \<Rightarrow> Inr (Some ''NOT NULL'')
      | Some d \<Rightarrow>
          if d = PNone \<or> d = PStr ''null'' then Inr (Some ''NOT NULL'')
          else (case d of
                  PCallable k \<Rightarrow> Inr (Some ''NOT NULL'')
                | PCallableColumn k \<Rightarrow> Inr (Some ''NOT NULL'')
                | PSQL s \<Rightarrow> Inr (Some (''NOT NULL DEFAULT '' @ s))
                | _ \<Rightarrow> (case to_str X self d of
                           Inl e \<Rightarrow> Inl e
                         | Inr s \<Rightarrow> Inr (Some (''NOT NULL DEFAULT '' @ apostrophe @ s @ apostrophe)))))"
  using assms
  by (cases "f_default self")
     (auto simp: default_clause_def parse_default_def parse_options_def to_default_sql_def
        NULL_def apostrophe_def in_None_NULL_def eq_NULL_def is_column_default_def
        split: pyval.splits sum.splits)

text \<open>The object \<^verbatim>\<open>VarChar(null=False, default='abc', name='s')\<close> has the clause
  \<^verbatim>\<open>NOT NULL DEFAULT 'abc'\<close>.\<close>

definition varchar_abc :: field where
  "varchar_abc =
     (new_object K_VarChar)
       \<lparr> f_null := Some False, f_default := Some (PStr ''abc''), f_name := Some ''s'',
         f_length := Some (LInt 254) \<rparr>"

theorem non_null_default_clause_witness:
  "f_null varchar_abc = Some False \<and> f_auto varchar_abc \<noteq> Some True \<and>
   default_clause no_externals varchar_abc
     = Inr (Some (''NOT NULL DEFAULT '' @ apostrophe @ ''abc'' @ apostrophe))"
  using non_null_default_clause [of varchar_abc no_externals]
  by (simp add: varchar_abc_def new_object_def to_str_def FieldBase_to_str_def db_value_def
        FieldBase_db_value_def adapt_def FieldBase_adapt_def py_type_is_tuple_def py_types_def
        py_construct_def py_str_def)

text \<open>The sentence of the specification fails for a raw SQL default: the object
  \<^verbatim>\<open>Timestamp(null=False, default=SQL("CURRENT_TIMESTAMP"), name='created')\<close> gets a
  \<^verbatim>\<open>DEFAULT\<close> clause, not a bare \<^verbatim>\<open>NOT NULL\<close>.\<close>

theorem raw_sql_default_counterexample:
  "(case Timestamp_init False False (PSQL ''CURRENT_TIMESTAMP'') [] (Some ''created'') of
      Inl e \<Rightarrow> Inl e
    | Inr (f, w) \<Rightarrow> default_clause no_externals f)
   = Inr (Some ''NOT NULL DEFAULT CURRENT_TIMESTAMP'')"
  by (simp add: Timestamp_init_def FieldBase_init_def new_object_def is_SQL_def Let_def
        default_clause_def parse_default_def parse_options_def to_default_sql_def NULL_def db_type_def
        in_None_NULL_def eq_NULL_def is_column_default_def)

text \<open>
  C4.  \<^verbatim>\<open>Int.__init__\<close>: with \<^verbatim>\<open>primary_key=True\<close> and no default the field is built
  and its slot \<^verbatim>\<open>null\<close> is assigned false, whatever \<^verbatim>\<open>null\<close> was passed (without
  \<^verbatim>\<open>primary_key\<close> and \<^verbatim>\<open>auto\<close> the slot is assigned the argument); with
  \<^verbatim>\<open>primary_key=True\<close> and a default it raises; with \<^verbatim>\<open>auto=True\<close> and
  \<^verbatim>\<open>primary_key=False\<close> it raises; and with \<^verbatim>\<open>primary_key=True, auto=True\<close> (no
  default) neither the field's construction nor the construction of a table that holds
  it as its primary key raises.  \<^verbatim>\<open>Auto.__init__\<close>, which passes exactly these
  arguments, never raises.
\<close>

theorem Int_init_primary_key_auto:
  "(primary_key \<and> dflt = PNone \<longrightarrow>
      (\<exists>f. Int_init k len u z primary_key auto null dflt c n = Inr (f, [])
         \<and> f_null f = Some False \<and> f_primary_key f = Some True \<and> f_auto f = Some auto
         \<and> f_default f = Some PNone \<and> f_comment f = c \<and> f_name f = n))
   \<and> (\<not> primary_key \<and> \<not> auto \<and> dflt = PNone \<longrightarrow>
      (\<exists>f w. Int_init k len u z primary_key auto null dflt c n = Inr (f, w)
         \<and> f_null f = Some null))
   \<and> (primary_key \<and> dflt \<noteq> PNone \<longrightarrow>
      Int_init k len u z primary_key auto null dflt c n
        = Inl (ProgrammingError ''Primary key field not allow set default''))
   \<and> (\<not> primary_key \<and> auto \<longrightarrow>
      (\<exists>msg. Int_init k len u z primary_key auto null dflt c n = Inl (ProgrammingError msg)))
   \<and> (p_field prim = Some a \<and> (nm, a) \<in> set fd \<longrightarrow>
      (\<exists>f t. Int_init k len u z True True null PNone c n = Inr (f, [])
         \<and> f_null f = Some False
         \<and> snd (Table_init (H(a := Some f)) db tn fd prim idx eng cs cm) = Inr t))
   \<and> (\<exists>f. Auto_init k len u z c n = Inr (f, []) \<and> f_null f = Some False
         \<and> f_primary_key f = Some True \<and> f_auto f = Some True)"
  by (auto simp: Auto_init_def Int_init_def Tinyint_init_def FieldBase_init_None custom_wain_def
        Let_def Table_init_def new_object_def)

theorem Int_init_primary_key_auto_witness:
  "(\<exists>f. Int_init K_Int None False False True True True PNone [] (Some ''id'') = Inr (f, [])
        \<and> f_null f = Some False \<and> f_primary_key f = Some True \<and> f_auto f = Some True
        \<and> f_default f = Some PNone \<and> f_comment f = [] \<and> f_name f = Some ''id'')
   \<and> (\<exists>f w. Int_init K_Int None False False False False True PNone [] (Some ''n'') = Inr (f, w)
        \<and> f_null f = Some True)
   \<and> Int_init K_Int None False False True False True (PInt 5) [] (Some ''id'')
       = Inl (ProgrammingError ''Primary key field not allow set default'')
   \<and> (\<exists>msg. Int_init K_Int None False False False True True PNone [] (Some ''id'')
         = Inl (ProgrammingError msg))
   \<and> (\<exists>f t. Int_init K_Int None False False True True True PNone [] (Some ''id'') = Inr (f, [])
        \<and> f_null f = Some False
        \<and> snd (Table_init ((\<lambda>x. None)(0 := Some f)) None ''users'' [(''id'', 0)]
                  \<lparr> p_field = Some 0, p_begin = None \<rparr> None None None None) = Inr t)"
proof -
  note t = Int_init_primary_key_auto [where k = K_Int and len = None and u = False and z = False
      and null = True and c = "[]" and prim = "\<lparr> p_field = Some 0, p_begin = None \<rparr>"
      and a = 0 and nm = "''id''" and fd = "[(''id'', 0)]" and H = "\<lambda>x. None" and db = None
      and tn = "''users''" and idx = None and eng = None and cs = None and cm = None]
  have 1: "\<exists>f. Int_init K_Int None False False True True True PNone [] (Some ''id'') = Inr (f, [])
        \<and> f_null f = Some False \<and> f_primary_key f = Some True \<and> f_auto f = Some True
        \<and> f_default f = Some PNone \<and> f_comment f = [] \<and> f_name f = Some ''id''"
    using t [where primary_key = True and dflt = PNone and auto = True and n = "Some ''id''"]
    by simp
  have 2: "\<exists>f w. Int_init K_Int None False False False False True PNone [] (Some ''n'') = Inr (f, w)
        \<and> f_null f = Some True"
    using t [where primary_key = False and dflt = PNone and auto = False and n = "Some ''n''"]
    by simp
  have 3: "Int_init K_Int None False False True False True (PInt 5) [] (Some ''id'')
       = Inl (ProgrammingError ''Primary key field not allow set default'')"
    using t [where primary_key = True and dflt = "PInt 5" and auto = False and n = "Some ''id''"]
    by simp
  have 4: "\<exists>msg. Int_init K_Int None False False False True True PNone [] (Some ''id'')
         = Inl (ProgrammingError msg)"
    using t [where primary_key = False and dflt = PNone and auto = True and n = "Some ''id''"]
    by simp
  have 5: "\<exists>f t. Int_init K_Int None False False True True True PNone [] (Some ''id'') = Inr (f, [])
        \<and> f_null f = Some False
        \<and> snd (Table_init ((\<lambda>x. None)(0 := Some f)) None ''users'' [(''id'', 0)]
                  \<lparr> p_field = Some 0, p_begin = None \<rparr> None None None None) = Inr t"
    using t [where primary_key = True and dflt = PNone and auto = True and n = "Some ''id''"]
    by simp
  from 1 2 3 4 5 show ?thesis by blast
qed

text \<open>
  C7, as the code has it.  For a malformed input (no string of 32 characters, no 16
  bytes, no \<^verbatim>\<open>uuid.UUID\<close> object, and rejected by the \<^verbatim>\<open>uuid.UUID\<close> constructor)
  \<^verbatim>\<open>UUID.db_value\<close> raises nothing: its \<^verbatim>\<open>except Exception\<close> branch returns the input
  unchanged.
\<close>

theorem UUID_db_value_malformed:
  assumes "f_kind self = K_UUID"
    and "\<forall>s. v = PStr s \<longrightarrow> length s \<noteq> 32"
    and "\<forall>bs. v = PBytes bs \<longrightarrow> length bs \<noteq> 16"
    and "\<not> isinstance v T_UUID"
    and "UUID_construct X v = Inl e"
  shows "db_value X self v = Inr v"
  using assms
  by (cases v) (auto simp: db_value_def UUID_db_value_def isinstance_def Let_def)

lemma not_a_uuid_rejected:
  "UUID_construct X (PStr ''not-a-uuid'') = Inl ValueError"
  by (simp add: UUID_construct_def UUID_of_str_def remove_all.simps strip_chars_def)

theorem UUID_db_value_malformed_witness:
  "f_kind ((new_object K_UUID)\<lparr> f_name := Some ''uid'' \<rparr>) = K_UUID \<and>
   \<not> isinstance (PStr ''not-a-uuid'') T_UUID \<and>
   UUID_construct no_externals (PStr ''not-a-uuid'') = Inl ValueError \<and>
   db_value no_externals ((new_object K_UUID)\<lparr> f_name := Some ''uid'' \<rparr>) (PStr ''not-a-uuid'')
     = Inr (PStr ''not-a-uuid'')"
  using UUID_db_value_malformed [of "(new_object K_UUID)\<lparr> f_name := Some ''uid'' \<rparr>"
          "PStr ''not-a-uuid''" no_externals ValueError]
        not_a_uuid_rejected [of no_externals]
  by (simp add: new_object_def isinstance_def)

text \<open>The sentence of the specification fails: for the object \<^verbatim>\<open>UUID(name='uid')\<close> the call
  \<^verbatim>\<open>db_value('not-a-uuid')\<close> returns \<^verbatim>\<open>'not-a-uuid'\<close>, although the constructor
  \<^verbatim>\<open>uuid.UUID\<close> rejects that string.\<close>

theorem UUID_db_value_malformed_counterexample:
  "UUID_construct no_externals (PStr ''not-a-uuid'') = Inl ValueError \<and>
   (case UUID_init False PNone [] (Some ''uid'') of
      Inl e \<Rightarrow> Inl e
    | Inr (f, w) \<Rightarrow> db_value no_externals f (PStr ''not-a-uuid'')) = Inr (PStr ''not-a-uuid'')"
  by (simp add: UUID_init_def FieldBase_init_def new_object_def Let_def db_value_def
        UUID_db_value_def UUID_construct_def UUID_of_str_def remove_all.simps strip_chars_def)

text \<open>
  C8.  For the field \<^verbatim>\<open>Decimal(length=(10,2), auto_round=True)\<close>, whatever its other
  arguments, \<^verbatim>\<open>db_value("3.14159")\<close> is the decimal \<^verbatim>\<open>3.14\<close> (coefficient 314,
  exponent -2), rounded by the default mode \<^verbatim>\<open>ROUND_HALF_EVEN\<close>; and for every decimal
  field, \<^verbatim>\<open>db_value\<close> of a falsy value other than \<^verbatim>\<open>None\<close> is \<^verbatim>\<open>Decimal(0)\<close>,
  without rounding.
\<close>

theorem Decimal_db_value_rounds:
  "(Decimal_init (Some (LPair 10 2)) u n True None d c nm = Inr (f, w) \<longrightarrow>
      db_value X f (PStr ''3.14159'') = Inr (PDecimal False 314 (- 2)))
   \<and> (f_kind g = K_Decimal \<and> \<not> truthy v \<and> v \<noteq> PNone \<longrightarrow>
      db_value X g v = Inr (PDecimal False 0 0))"
proof -
  have pd: "plain_decimal ''3.14159'' = Some (False, 314159, - 5)"
    by (simp add: plain_decimal_def is_digit_def nat_of_digits_def digit_val_def)
  have q: "quantize False 314159 (- 5) (- 2) ''ROUND_HALF_EVEN'' = Inr (PDecimal False 314 (- 2))"
    by (simp add: quantize_def round_incr_def ndigits_small ndigits_large)
  show ?thesis
    by (auto simp: Decimal_init_def FieldBase_init_def Let_def new_object_def db_value_def
        Decimal_db_value_def pow10_exponent_def Decimal_of_str_def py_str_def pd q
        split: if_splits)
qed

definition decimal_10_2 :: field where
  "decimal_10_2 =
     (new_object K_Decimal)
       \<lparr> f_null := Some True, f_default := Some PNone, f_length := Some (LPair 10 2),
         f_unsigned := Some False, f_auto_round := True, f_rounding := ''ROUND_HALF_EVEN'' \<rparr>"

lemma Decimal_init_10_2:
  "Decimal_init (Some (LPair 10 2)) False True True None PNone [] None = Inr (decimal_10_2, [])"
  by (simp add: Decimal_init_def FieldBase_init_None decimal_10_2_def new_object_def
        custom_wain_def)

theorem Decimal_db_value_rounds_witness:
  "Decimal_init (Some (LPair 10 2)) False True True None PNone [] None = Inr (decimal_10_2, [])
   \<and> db_value no_externals decimal_10_2 (PStr ''3.14159'') = Inr (PDecimal False 314 (- 2))
   \<and> f_kind decimal_10_2 = K_Decimal \<and> \<not> truthy (PInt 0) \<and> PInt 0 \<noteq> PNone
   \<and> db_value no_externals decimal_10_2 (PInt 0) = Inr (PDecimal False 0 0)"
  using Decimal_db_value_rounds [of False True PNone "[]" None decimal_10_2 "[]" no_externals
          decimal_10_2 "PInt 0"]
        Decimal_init_10_2
  by (simp add: decimal_10_2_def new_object_def)

text \<open>What \<^verbatim>\<open>Table.__init__\<close> does to the fields of the dictionary.\<close>

lemma fold_set_table_other:
  "a \<notin> snd ` set fd \<Longrightarrow> fold (set_table t) fd H a = H a"
  by (induction fd arbitrary: H) (auto simp: set_table_def split: option.splits)

lemma fold_set_table_sets:
  "a \<in> snd ` set fd \<Longrightarrow> H a = Some f \<Longrightarrow>
   fold (set_table t) fd H a = Some (f\<lparr>f_table := Some t\<rparr>)"
proof (induction fd arbitrary: H f)
  case Nil
  then show ?case by simp
next
  case (Cons kv fd)
  show ?case
  proof (cases "snd kv = a")
    case True
    have h: "set_table t kv H a = Some (f\<lparr>f_table := Some t\<rparr>)"
      using True Cons.prems(2) by (simp add: set_table_def)
    show ?thesis
    proof (cases "a \<in> snd ` set fd")
      case False
      then show ?thesis using h by (simp add: fold_set_table_other)
    next
      case True
      from Cons.IH[of "set_table t kv H" "f\<lparr>f_table := Some t\<rparr>"] True h
      show ?thesis by simp
    qed
  next
    case False
    then have in_fd: "a \<in> snd ` set fd" using Cons.prems(1) by auto
    have "set_table t kv H a = Some f"
      using False Cons.prems(2) by (simp add: set_table_def split: option.splits)
    with Cons.IH[of "set_table t kv H" f] in_fd show ?thesis by simp
  qed
qed

text \<open>
  C10.  \<^verbatim>\<open>Table.__init__\<close> assigns the back-reference of every field of
  \<^verbatim>\<open>fields_dict\<close> before it tests the primary key.  When there is no primary key the
  call raises the missing-primary-key error, and in the store it leaves behind every
  field of the dictionary refers to the table under construction.
\<close>

theorem Table_init_not_atomic:
  assumes "p_field prim = None"
    and "Table_init H db tn fd prim idx eng cs cm = (H', r)"
    and "(k, a) \<in> set fd"
    and "H a = Some f"
  shows "r = Inl NoPKError \<and>
         (\<exists>t. H' a = Some (f\<lparr>f_table := Some t\<rparr>) \<and> t_name t = tn \<and> t_fields_dict t = fd)"
proof -
  have mem: "a \<in> snd ` set fd"
    using assms(3) by force
  show ?thesis
    using assms(1,2,4) mem fold_set_table_sets[of a fd H f]
    by (auto simp: Table_init_def Let_def)
qed

theorem Table_init_not_atomic_witness:
  "p_field \<lparr> p_field = None, p_begin = None \<rparr> = None \<and>
   snd (Table_init ((\<lambda>x. None)(0 := Some varchar_abc)) None ''users'' [(''s'', 0)]
          \<lparr> p_field = None, p_begin = None \<rparr> None None None None) = Inl NoPKError \<and>
   (\<exists>t. fst (Table_init ((\<lambda>x. None)(0 := Some varchar_abc)) None ''users'' [(''s'', 0)]
          \<lparr> p_field = None, p_begin = None \<rparr> None None None None) 0
         = Some (varchar_abc\<lparr>f_table := Some t\<rparr>)
       \<and> t_name t = ''users'' \<and> t_fields_dict t = [(''s'', 0)])"
  using Table_init_not_atomic [of "\<lparr> p_field = None, p_begin = None \<rparr>"
          "(\<lambda>x. None)(0 := Some varchar_abc)" None "''users''" "[(''s'', 0)]" None None None None
          "fst (Table_init ((\<lambda>x. None)(0 := Some varchar_abc)) None ''users'' [(''s'', 0)]
                  \<lparr> p_field = None, p_begin = None \<rparr> None None None None)"
          "snd (Table_init ((\<lambda>x. None)(0 := Some varchar_abc)) None ''users'' [(''s'', 0)]
                  \<lparr> p_field = None, p_begin = None \<rparr> None None None None)"
          "''s''" 0 varchar_abc]
  by simp

text \<open>
  C3.  \<^verbatim>\<open>c == None\<close> builds an expression with the operator \<^verbatim>\<open>IS\<close> and
  \<^verbatim>\<open>c != None\<close> one with \<^verbatim>\<open>IS NOT\<close>; for every other right operand the operators are
  \<^verbatim>\<open>=\<close> and \<^verbatim>\<open>!=\<close>; and the spellings differ, so \<^verbatim>\<open>IS\<close> is never \<^verbatim>\<open>=\<close>.
\<close>

theorem eq_None_is_IS:
  "col_eq c (Val PNone) = Expression c (OPERATOR O_IS) (Val PNone) True
   \<and> col_ne c (Val PNone) = Expression c (OPERATOR O_IS_NOT) (Val PNone) True
   \<and> (rhs \<noteq> Val PNone \<longrightarrow>
        col_eq c rhs = Expression c (OPERATOR O_EQ) rhs True
        \<and> col_ne c rhs = Expression c (OPERATOR O_NE) rhs True)
   \<and> OPERATOR O_IS \<noteq> OPERATOR O_EQ \<and> OPERATOR O_IS_NOT \<noteq> OPERATOR O_NE"
  by (simp add: col_eq_def col_ne_def OPERATOR_def)

theorem eq_None_is_IS_witness:
  "Val (PInt 1) \<noteq> Val PNone
   \<and> col_eq (FieldBase varchar_abc) (Val (PInt 1))
       = Expression (FieldBase varchar_abc) ''='' (Val (PInt 1)) True
   \<and> col_ne (FieldBase varchar_abc) (Val (PInt 1))
       = Expression (FieldBase varchar_abc) ''!='' (Val (PInt 1)) True
   \<and> col_eq (FieldBase varchar_abc) (Val PNone)
       = Expression (FieldBase varchar_abc) ''IS'' (Val PNone) True"
  using eq_None_is_IS [of "FieldBase varchar_abc" "Val (PInt 1)"]
  by (simp add: OPERATOR_def)


section \<open>Properties of rendering\<close>




lemma state_literal [simp]: "c_state (literal c t) = c_state c"
  by (simp add: literal_def)




text \<open>The objects \<^verbatim>\<open>Int(name=n)\<close>, as \<^verbatim>\<open>Int.__init__\<close> builds them.\<close>

definition Int_named :: "string \<Rightarrow> field" where
  "Int_named n =
     (new_object K_Int)
       \<lparr> f_null := Some True, f_default := Some PNone, f_name := Some n,
         f_length := Some (LInt 11), f_unsigned := Some False, f_zerofill := Some False,
         f_primary_key := Some False, f_auto := Some False \<rparr>"

lemma Int_init_named:
  "Int_init K_Int None False False False False True PNone [] (Some n) = Inr (Int_named n, [])"
  by (simp add: Int_init_def Tinyint_init_def FieldBase_init_None Int_named_def new_object_def
        custom_wain_def length_or_default_def default_length_def Let_def)



text \<open>
  C1.  \<^verbatim>\<open>Expression.__sql__\<close> stores the coerced right operand in \<^verbatim>\<open>self.rhs\<close>.
  For the expression \<^verbatim>\<open>Int(name='a').in_(Int(name='b'))\<close> the first render gives the
  text \<^verbatim>\<open>(`a` IN (`b`))\<close> and leaves the expression with the right operand
  \<^verbatim>\<open>EnclosedNodeList([b])\<close>; the second render, on a fresh context, wraps that node
  again and gives \<^verbatim>\<open>(`a` IN ((`b`)))\<close>.
\<close>

theorem render_twice_differs:
  "render_entry no_externals [] (col_in (FieldBase (Int_named ''a'')) (FieldBase (Int_named ''b'')))
     = Inr ((''(`a` IN (`b`))'', []),
            Expression (FieldBase (Int_named ''a'')) ''IN''
              (EnclosedNodeList [FieldBase (Int_named ''b'')]) True)
   \<and> render_entry no_externals []
       (Expression (FieldBase (Int_named ''a'')) ''IN''
          (EnclosedNodeList [FieldBase (Int_named ''b'')]) True)
     = Inr ((''(`a` IN ((`b`)))'', []),
            Expression (FieldBase (Int_named ''a'')) ''IN''
              (EnclosedNodeList [EnclosedNodeList [FieldBase (Int_named ''b'')]]) True)"
  by (simp add: col_in_def OPERATOR_def in_ops_def is_node_def is_sequence_def is_str_item_def
        render_entry_def Field_sql_def Int_named_def new_object_def column_def
        Context_new_def enter_def leave_def literal_def
        expr_overrides_def parens_only_def no_overrides_def Let_def)

text \<open>Rendering never removes a registered alias, and it keeps the class of the
  object it renders.\<close>

lemma aliases_literal [simp]: "c_aliases (literal c t) = c_aliases c"
  by (simp add: literal_def)

lemma aliases_enter [simp]: "c_aliases (enter c ov) = c_aliases c"
  by (simp add: enter_def Let_def)

lemma aliases_leave [simp]: "c_aliases (leave st c) = c_aliases c"
  by (simp add: leave_def)














end
